theory Spec2Isabelle
  imports Main "HOL-Library.Word"
begin

section \<open>Machine types\<close>

text \<open>
  Go's fixed-width integers are words: \<open>+\<close>, \<open>-\<close> and \<open>*\<close> wrap, \<open>unat\<close> reads a
  word as unsigned and \<open>sint\<close> as two's complement. A conversion between \<open>int64\<close> and
  \<open>uint64\<close> keeps the bits, so both are the same word type here; the reading
  (\<open>sint\<close> or \<open>unat\<close>) is chosen where a value is interpreted.
\<close>

type_synonym byte = "8 word"
type_synonym int8 = "8 word"
type_synonym int64 = "64 word"
type_synonym uint64 = "64 word"
type_synonym uint32 = "32 word"

section \<open>types/number.go\<close>

text \<open>
  \<^verbatim>\<open>type Number struct { Value int64; TTL uint64 }\<close>.
  The methods have a pointer receiver and mutate the struct through
  \<^verbatim>\<open>sync/atomic\<close>; here each one takes the struct and returns its result together with
  the updated struct. Each atomic primitive is one indivisible step, so its sequential
  meaning is the function below.
\<close>

record Number =
  Value :: int64
  TTL :: uint64

definition NewNumber :: "int64 \<Rightarrow> Number" where
  "NewNumber num = \<lparr>Value = num, TTL = 0\<rparr>"

text \<open>\<^verbatim>\<open>atomic.AddInt64(addr, delta)\<close>: stores \<open>*addr + delta\<close> and returns the new value.\<close>

definition atomic_AddInt64 :: "Number \<Rightarrow> int64 \<Rightarrow> int64 \<times> Number" where
  "atomic_AddInt64 num delta = (Value num + delta, num\<lparr>Value := Value num + delta\<rparr>)"

definition Add :: "Number \<Rightarrow> int64 \<Rightarrow> int64 \<times> Number" where
  "Add num delta = atomic_AddInt64 num delta"

definition Sub :: "Number \<Rightarrow> int64 \<Rightarrow> int64 \<times> Number" where
  "Sub num delta = atomic_AddInt64 num (- delta)"

definition Increment :: "Number \<Rightarrow> int64 \<times> Number" where
  "Increment num = Add num 1"

definition Decrement :: "Number \<Rightarrow> int64 \<times> Number" where
  "Decrement num = Sub num 1"

text \<open>\<^verbatim>\<open>Number.Set\<close> (the name \<open>Set\<close> is taken by the \<open>Kind\<close> constant below).\<close>

definition Set_Value :: "Number \<Rightarrow> int64 \<Rightarrow> Number" where
  "Set_Value num newValue = num\<lparr>Value := newValue\<rparr>"

definition Get :: "Number \<Rightarrow> int64" where
  "Get num = Value num"

definition CompareAndSwap :: "Number \<Rightarrow> int64 \<Rightarrow> int64 \<Rightarrow> bool \<times> Number" where
  "CompareAndSwap num old new =
     (if Value num = old then (True, num\<lparr>Value := new\<rparr>) else (False, num))"

section \<open>Errors\<close>

text \<open>
  Go's \<^verbatim>\<open>error\<close> values as the source builds them: \<^verbatim>\<open>errors.New(msg)\<close> and
  \<^verbatim>\<open>fmt.Errorf(msg)\<close> without a verb give an error that holds its message only;
  \<^verbatim>\<open>fmt.Errorf(prefix + "%w", err)\<close> gives an error whose message is the prefix followed
  by the message of \<open>err\<close>, and that wraps \<open>err\<close>. No other error type is declared in the
  source. Errors of the collaborators (the BSON library, the transformer) are values of
  the same type.
\<close>

datatype error = errorString string | wrapError string error

fun Error :: "error \<Rightarrow> string" where
  "Error (errorString s) = s"
| "Error (wrapError msg err) = msg"

definition errors_New :: "string \<Rightarrow> error" where
  "errors_New text = errorString text"

definition fmt_Errorf :: "string \<Rightarrow> error" where
  "fmt_Errorf text = errorString text"

definition fmt_Errorf_w :: "string \<Rightarrow> error \<Rightarrow> error" where
  "fmt_Errorf_w prefix err = wrapError (prefix @ Error err) err"

text \<open>Whether a text occurs in a message (used to say what a message names).\<close>

fun starts_with :: "string \<Rightarrow> string \<Rightarrow> bool" where
  "starts_with [] s = True"
| "starts_with (p # ps) [] = False"
| "starts_with (p # ps) (c # cs) = (p = c \<and> starts_with ps cs)"

fun contains :: "string \<Rightarrow> string \<Rightarrow> bool" where
  "contains s [] = (s = [])"
| "contains s (c # cs) = (starts_with s (c # cs) \<or> contains s cs)"

section \<open>vfs/segment.go\<close>

text \<open>\<^verbatim>\<open>type Kind int8\<close> with the constants \<open>Set\<close> = 0 up to \<open>Unknown\<close> = 6.\<close>

datatype Kind = Set | ZSet | List | Text | Table | Number | Unknown

fun Kind_tag :: "Kind \<Rightarrow> int8" where
  "Kind_tag Set = 0"
| "Kind_tag ZSet = 1"
| "Kind_tag List = 2"
| "Kind_tag Text = 3"
| "Kind_tag Table = 4"
| "Kind_tag Number = 5"
| "Kind_tag Unknown = 6"

record Segment =
  Tombstone :: int8
  Type :: Kind
  ExpiredAt :: uint64
  CreatedAt :: uint64
  KeySize :: uint32
  ValueSize :: uint32
  Key :: "byte list"
  SegValue :: "byte list"

text \<open>
  A value of the interface \<^verbatim>\<open>Serializable\<close> is a dynamic type with a method table.
  \<open>NewSegment\<close> uses exactly two things of it: the dynamic type, in the type switch of
  \<open>toKind\<close>, and the result of its method \<^verbatim>\<open>ToBSON()\<close>. The dynamic types are the six
  value types of package \<^verbatim>\<open>types\<close>, pointers, and any other named type that has the
  method. The nil interface has no dynamic type; \<open>toKind\<close> rejects it before the method
  would be called.
\<close>

datatype gotype =
  types_Set | types_ZSet | types_List | types_Text | types_Table | types_Number
  | Pointer gotype | Named string | nil_interface

record Serializable =
  dyntype :: gotype
  ToBSON :: "error + byte list"

text \<open>The text that Go's \<^verbatim>\<open>%T\<close> prints for a dynamic type.\<close>

fun type_string :: "gotype \<Rightarrow> string" where
  "type_string types_Set = ''types.Set''"
| "type_string types_ZSet = ''types.ZSet''"
| "type_string types_List = ''types.List''"
| "type_string types_Text = ''types.Text''"
| "type_string types_Table = ''types.Table''"
| "type_string types_Number = ''types.Number''"
| "type_string (Pointer t) = CHR ''*'' # type_string t"
| "type_string (Named n) = n"
| "type_string nil_interface = ''<nil>''"

text \<open>
  \<^verbatim>\<open>func (num Number) ToBSON() ([]byte, error) { return bson.Marshal(num) }\<close>.
  The BSON library is a parameter: \<open>bson_Marshal\<close> is what it does on a Number. The method
  has a value receiver, so both a \<^verbatim>\<open>types.Number\<close> and a \<^verbatim>\<open>*types.Number\<close> are
  \<^verbatim>\<open>Serializable\<close>, with the same method result.
\<close>

definition Number_ToBSON :: "(Number \<Rightarrow> error + byte list) \<Rightarrow> Number \<Rightarrow> error + byte list" where
  "Number_ToBSON bson_Marshal num = bson_Marshal num"

definition Number_value :: "(Number \<Rightarrow> error + byte list) \<Rightarrow> Number \<Rightarrow> Serializable" where
  "Number_value bson_Marshal num =
     \<lparr>dyntype = types_Number, ToBSON = Number_ToBSON bson_Marshal num\<rparr>"

definition Number_pointer :: "(Number \<Rightarrow> error + byte list) \<Rightarrow> Number \<Rightarrow> Serializable" where
  "Number_pointer bson_Marshal num =
     \<lparr>dyntype = Pointer types_Number, ToBSON = Number_ToBSON bson_Marshal num\<rparr>"

text \<open>
  \<open>toKind\<close>: the type switch. Go returns the pair \<^verbatim>\<open>(Unknown, err)\<close> in the default
  case; the caller drops the kind, so the failure is \<open>Inl err\<close> here.
\<close>

fun type_switch :: "gotype \<Rightarrow> error + Kind" where
  "type_switch types_Set = Inr Set"
| "type_switch types_ZSet = Inr ZSet"
| "type_switch types_List = Inr List"
| "type_switch types_Text = Inr Text"
| "type_switch types_Table = Inr Table"
| "type_switch types_Number = Inr Number"
| "type_switch (Pointer types_Number) = Inr Number"
| "type_switch _ = Inl (errors_New ''unknown data type'')"

definition toKind :: "Serializable \<Rightarrow> error + Kind" where
  "toKind data = type_switch (dyntype data)"

text \<open>
  The clock. \<^verbatim>\<open>time.Now().UnixNano()\<close> reads the system clock; every call is a new
  reading. A clock is the sequence of readings still to come; a read takes the first.
  \<^verbatim>\<open>time.Now().Add(d).UnixNano()\<close> is the reading plus \<open>d\<close> in 64-bit arithmetic, and
  \<^verbatim>\<open>time.Second * time.Duration(ttl)\<close> is \<open>1000000000 * ttl\<close> in 64-bit arithmetic.
\<close>

type_synonym clock = "nat \<Rightarrow> int64"

definition time_Now :: "clock \<Rightarrow> int64 \<times> clock" where
  "time_Now c = (c 0, \<lambda>n. c (Suc n))"

text \<open>
  The package variable \<^verbatim>\<open>transformer\<close> is declared outside this file; it is a parameter,
  with the two methods of its contract.
\<close>

record Transformer =
  Encode :: "byte list \<Rightarrow> error + byte list"
  Decode :: "byte list \<Rightarrow> error + byte list"

text \<open>\<^verbatim>\<open>[]byte(key)\<close>: a Go string is its bytes.\<close>

definition bytes_of :: "string \<Rightarrow> byte list" where
  "bytes_of key = map of_char key"

definition NewSegment ::
  "Transformer \<Rightarrow> string \<Rightarrow> Serializable \<Rightarrow> uint64 \<Rightarrow> clock \<Rightarrow> (error + Segment) \<times> clock" where
  "NewSegment transformer key data ttl c =
     (case toKind data of
        Inl err \<Rightarrow> (Inl (fmt_Errorf_w ''unsupported data type: '' err), c)
      | Inr kind \<Rightarrow>
          (let (timestamp, c1) = time_Now c;
               (expiredAt, c2) =
                 (if ttl > 0
                  then (let (t, c') = time_Now c1 in (t + 1000000000 * ttl, c'))
                  else (0, c1))
           in case ToBSON data of
                Inl err \<Rightarrow> (Inl err, c2)
              | Inr bytes \<Rightarrow>
                  (case Encode transformer bytes of
                     Inl err \<Rightarrow> (Inl (fmt_Errorf_w ''transformer encode: '' err), c2)
                   | Inr encodedata \<Rightarrow>
                       (Inr \<lparr>Tombstone = 0,
                             Type = kind,
                             ExpiredAt = expiredAt,
                             CreatedAt = timestamp,
                             KeySize = of_nat (length key),
                             ValueSize = of_nat (length encodedata),
                             Key = bytes_of key,
                             SegValue = encodedata\<rparr>, c2))))"

definition NewTombstoneSegment :: "string \<Rightarrow> clock \<Rightarrow> Segment \<times> clock" where
  "NewTombstoneSegment key c =
     (let (timestamp, c1) = time_Now c
      in (\<lparr>Tombstone = 1,
           Type = Unknown,
           ExpiredAt = 0,
           CreatedAt = timestamp,
           KeySize = of_nat (length key),
           ValueSize = 0,
           Key = bytes_of key,
           SegValue = []\<rparr>, c1))"

definition IsTombstone :: "Segment \<Rightarrow> bool" where
  "IsTombstone s = (Tombstone s = 1)"

definition Size :: "Segment \<Rightarrow> uint32" where
  "Size s = 26 + KeySize s + ValueSize s + 4"

text \<open>
  The conversions. \<^verbatim>\<open>bson.Unmarshal(s.Value, &x)\<close> is a parameter: \<open>bson_Unmarshal\<close>
  gives the decoded value or the library's error. The value types other than Number are
  declared outside the source at hand, so their type is a parameter too.
\<close>

definition ToSet :: "(byte list \<Rightarrow> error + 'a) \<Rightarrow> Segment \<Rightarrow> error + 'a" where
  "ToSet bson_Unmarshal s =
     (if Type s \<noteq> Set then Inl (fmt_Errorf ''not support conversion to set type'')
      else case bson_Unmarshal (SegValue s) of Inl err \<Rightarrow> Inl err | Inr v \<Rightarrow> Inr v)"

definition ToZSet :: "(byte list \<Rightarrow> error + 'a) \<Rightarrow> Segment \<Rightarrow> error + 'a" where
  "ToZSet bson_Unmarshal s =
     (if Type s \<noteq> ZSet then Inl (fmt_Errorf ''not support conversion to zset type'')
      else case bson_Unmarshal (SegValue s) of Inl err \<Rightarrow> Inl err | Inr v \<Rightarrow> Inr v)"

definition ToText :: "(byte list \<Rightarrow> error + 'a) \<Rightarrow> Segment \<Rightarrow> error + 'a" where
  "ToText bson_Unmarshal s =
     (if Type s \<noteq> Text then Inl (fmt_Errorf ''not support conversion to text type'')
      else case bson_Unmarshal (SegValue s) of Inl err \<Rightarrow> Inl err | Inr v \<Rightarrow> Inr v)"

definition ToList :: "(byte list \<Rightarrow> error + 'a) \<Rightarrow> Segment \<Rightarrow> error + 'a" where
  "ToList bson_Unmarshal s =
     (if Type s \<noteq> List then Inl (fmt_Errorf ''not support conversion to list type'')
      else case bson_Unmarshal (SegValue s) of Inl err \<Rightarrow> Inl err | Inr v \<Rightarrow> Inr v)"

definition ToTable :: "(byte list \<Rightarrow> error + 'a) \<Rightarrow> Segment \<Rightarrow> error + 'a" where
  "ToTable bson_Unmarshal s =
     (if Type s \<noteq> Table then Inl (fmt_Errorf ''not support conversion to table type'')
      else case bson_Unmarshal (SegValue s) of Inl err \<Rightarrow> Inl err | Inr v \<Rightarrow> Inr v)"

definition ToNumber :: "(byte list \<Rightarrow> error + Number) \<Rightarrow> Segment \<Rightarrow> error + Number" where
  "ToNumber bson_Unmarshal s =
     (if Type s \<noteq> Number then Inl (fmt_Errorf ''not support conversion to number type'')
      else case bson_Unmarshal (SegValue s) of Inl err \<Rightarrow> Inl err | Inr v \<Rightarrow> Inr v)"

text \<open>\<^verbatim>\<open>Segment.TTL\<close> (the name \<open>TTL\<close> is the field of Number). The result is an \<^verbatim>\<open>int64\<close>.\<close>

definition Segment_TTL :: "Segment \<Rightarrow> clock \<Rightarrow> int64 \<times> clock" where
  "Segment_TTL s c =
     (let (now, c1) = time_Now c
      in (if ExpiredAt s > 0 \<and> ExpiredAt s > now then ExpiredAt s - now else - 1, c1))"

text \<open>
  The names by which the messages of the conversions mention the kinds
  (\<^verbatim>\<open>"not support conversion to zset type"\<close>), and \<^verbatim>\<open>"unknown"\<close> as in the message
  of \<open>toKind\<close>.
\<close>

fun Kind_name :: "Kind \<Rightarrow> string" where
  "Kind_name Set = ''set''"
| "Kind_name ZSet = ''zset''"
| "Kind_name List = ''list''"
| "Kind_name Text = ''text''"
| "Kind_name Table = ''table''"
| "Kind_name Number = ''number''"
| "Kind_name Unknown = ''unknown''"

section \<open>The wire form\<close>

definition le64 :: "64 word \<Rightarrow> byte list" where
  "le64 w = [ucast w, ucast (drop_bit 8 w), ucast (drop_bit 16 w), ucast (drop_bit 24 w),
             ucast (drop_bit 32 w), ucast (drop_bit 40 w), ucast (drop_bit 48 w),
             ucast (drop_bit 56 w)]"

definition le32 :: "32 word \<Rightarrow> byte list" where
  "le32 w = [ucast w, ucast (drop_bit 8 w), ucast (drop_bit 16 w), ucast (drop_bit 24 w)]"

definition from_le :: "byte list \<Rightarrow> 64 word" where
  "from_le bs = foldr (\<lambda>b w. ucast b + 256 * w) bs 0"

text \<open>
  Modelled from the spec: the function that writes a Segment to a stream is not in the
  source at hand. The specification lays the record out as the tombstone flag (1 byte),
  the kind tag (1), \<open>ExpiresAt\<close> (8), \<open>CreatedAt\<close> (8), \<open>KeySize\<close> (4), \<open>ValueSize\<close> (4), the
  key, the value, and a 4-byte CRC32 of all the bytes before it. It fixes one byte order
  without naming it: little-endian is taken here. The CRC32 function is a parameter.
\<close>

definition header :: "Segment \<Rightarrow> byte list" where
  "header s = [Tombstone s, Kind_tag (Type s)] @ le64 (ExpiredAt s) @ le64 (CreatedAt s)
              @ le32 (KeySize s) @ le32 (ValueSize s)"

text \<open>
  Modelled from the spec: the wire form is the fixed header, the key, the value, and the
  checksum of these three, in this order.
\<close>

definition serialize :: "(byte list \<Rightarrow> uint32) \<Rightarrow> Segment \<Rightarrow> byte list" where
  "serialize crc32 s =
     (let body = header s @ Key s @ SegValue s in body @ le32 (crc32 body))"

section \<open>Collaborators and inputs for the examples\<close>

text \<open>
  A stand-in for the BSON library on Numbers: the two fields as fixed-width little-endian
  integers. Decoding inverts encoding and rejects any other length.
\<close>

definition example_Marshal :: "Number \<Rightarrow> error + byte list" where
  "example_Marshal num = Inr (le64 (Value num) @ le64 (TTL num))"

definition example_Unmarshal :: "byte list \<Rightarrow> error + Number" where
  "example_Unmarshal bs =
     (if length bs = 16 then Inr \<lparr>Value = from_le (take 8 bs), TTL = from_le (drop 8 bs)\<rparr>
      else Inl (errorString ''malformed document''))"

text \<open>Two transformers that meet the contract: \<open>Decode\<close> undoes \<open>Encode\<close>.\<close>

definition identity_transformer :: Transformer where
  "identity_transformer = \<lparr>Encode = Inr, Decode = Inr\<rparr>"

definition reversing_transformer :: Transformer where
  "reversing_transformer =
     \<lparr>Encode = (\<lambda>bs. Inr (rev bs)), Decode = (\<lambda>bs. Inr (rev bs))\<rparr>"

text \<open>
  Two clocks: one whose readings are all the same instant, and one that advances by 100
  nanoseconds from each reading to the next.
\<close>

definition steady_clock :: clock where
  "steady_clock = (\<lambda>n. 1700000000000000000)"

definition ticking_clock :: clock where
  "ticking_clock = (\<lambda>n. 1700000000000000000 + 100 * of_nat n)"

text \<open>
  The segment that \<open>NewSegment\<close> builds for the key \<^verbatim>\<open>"user:1"\<close> and the Number 42 with
  the stand-in encoder and the identity transformer, as a function of its two timestamps.
\<close>

definition example_segment :: "uint64 \<Rightarrow> uint64 \<Rightarrow> Segment" where
  "example_segment created expired =
     \<lparr>Tombstone = 0, Type = Number, ExpiredAt = expired, CreatedAt = created,
      KeySize = 6, ValueSize = 16, Key = [117, 115, 101, 114, 58, 49],
      SegValue = [42, 0, 0, 0, 0, 0, 0, 0, 0, 0, 0, 0, 0, 0, 0, 0]\<rparr>"

section \<open>Properties of the counter\<close>

lemma sint_add_wrap64:
  "sint ((a::int64) + b) = (sint a + sint b + 2 ^ 63) mod 2 ^ 64 - 2 ^ 63"
  by (simp add: sint_word_ariths signed_take_bit_eq_take_bit_shift take_bit_eq_mod)

text \<open>
  Claim C8. For every Number and every 64-bit delta, \<open>Sub delta\<close> returns the same value
  and leaves the same state as \<open>Add (- delta)\<close>; \<open>Increment\<close> is \<open>Add 1\<close> and
  \<open>Decrement\<close> is \<open>Sub 1\<close>; each of the four returns the value it has just stored; and the
  stored value is the two's-complement wrap-around of the exact sum to 64 bits, so that
  adding 1 to the largest value gives the smallest.
\<close>

theorem Number_arith_C8:
  "Sub num delta = Add num (- delta)
   \<and> Increment num = Add num 1
   \<and> Decrement num = Sub num 1
   \<and> fst (Add num delta) = Value (snd (Add num delta))
   \<and> fst (Sub num delta) = Value (snd (Sub num delta))
   \<and> fst (Increment num) = Value (snd (Increment num))
   \<and> fst (Decrement num) = Value (snd (Decrement num))
   \<and> sint (fst (Add num delta)) = (sint (Value num) + sint delta + 2 ^ 63) mod 2 ^ 64 - 2 ^ 63
   \<and> sint (fst (Sub num delta)) = (sint (Value num) - sint delta + 2 ^ 63) mod 2 ^ 64 - 2 ^ 63
   \<and> sint (fst (Add (NewNumber 9223372036854775807) 1)) = - 9223372036854775808
   \<and> sint (fst (Sub (NewNumber (- 9223372036854775808)) 1)) = 9223372036854775807"
proof -
  have sub: "sint (Value num - delta) = (sint (Value num) - sint delta + 2 ^ 63) mod 2 ^ 64 - 2 ^ 63"
    by (simp add: sint_word_ariths signed_take_bit_eq_take_bit_shift take_bit_eq_mod)
  show ?thesis
    by (simp add: Sub_def Add_def Increment_def Decrement_def atomic_AddInt64_def
        NewNumber_def sint_add_wrap64 sub)
qed

text \<open>
  Claim C10. Every operation on a Number leaves the \<open>TTL\<close> field as it was, and reads
  nothing but \<open>Value\<close>: run on a Number whose \<open>TTL\<close> has been replaced by any \<open>t\<close>, each
  operation returns the same result, and its final state is the original final state with
  \<open>TTL\<close> replaced by \<open>t\<close>.
\<close>

theorem Number_frame_C10:
  "TTL (snd (Add num d)) = TTL num
   \<and> TTL (snd (Sub num d)) = TTL num
   \<and> TTL (snd (Increment num)) = TTL num
   \<and> TTL (snd (Decrement num)) = TTL num
   \<and> TTL (Set_Value num v) = TTL num
   \<and> TTL (snd (CompareAndSwap num old new)) = TTL num
   \<and> Add (num\<lparr>TTL := t\<rparr>) d = (fst (Add num d), (snd (Add num d))\<lparr>TTL := t\<rparr>)
   \<and> Sub (num\<lparr>TTL := t\<rparr>) d = (fst (Sub num d), (snd (Sub num d))\<lparr>TTL := t\<rparr>)
   \<and> Increment (num\<lparr>TTL := t\<rparr>) = (fst (Increment num), (snd (Increment num))\<lparr>TTL := t\<rparr>)
   \<and> Decrement (num\<lparr>TTL := t\<rparr>) = (fst (Decrement num), (snd (Decrement num))\<lparr>TTL := t\<rparr>)
   \<and> Set_Value (num\<lparr>TTL := t\<rparr>) v = (Set_Value num v)\<lparr>TTL := t\<rparr>
   \<and> Get (num\<lparr>TTL := t\<rparr>) = Get num
   \<and> CompareAndSwap (num\<lparr>TTL := t\<rparr>) old new =
       (fst (CompareAndSwap num old new), (snd (CompareAndSwap num old new))\<lparr>TTL := t\<rparr>)"
  by (simp add: Sub_def Add_def Increment_def Decrement_def atomic_AddInt64_def
      Set_Value_def Get_def CompareAndSwap_def)

section \<open>Properties of the segment codec\<close>

subsection \<open>What NewSegment returns\<close>

lemma NewSegment_Inr:
  assumes "toKind data = Inr kind" and "ToBSON data = Inr bytes"
    and "Encode transformer bytes = Inr encodedata"
  shows "NewSegment transformer key data ttl c =
     (Inr \<lparr>Tombstone = 0, Type = kind,
           ExpiredAt = (if ttl > 0 then c 1 + 1000000000 * ttl else 0),
           CreatedAt = c 0,
           KeySize = of_nat (length key), ValueSize = of_nat (length encodedata),
           Key = bytes_of key, SegValue = encodedata\<rparr>,
      if ttl > 0 then (\<lambda>n. c (Suc (Suc n))) else (\<lambda>n. c (Suc n)))"
  using assms by (simp add: NewSegment_def time_Now_def)

lemma NewSegment_InrD:
  assumes "fst (NewSegment transformer key data ttl c) = Inr seg"
  shows "\<exists>kind bytes. toKind data = Inr kind \<and> ToBSON data = Inr bytes
           \<and> Encode transformer bytes = Inr (SegValue seg)
           \<and> seg = \<lparr>Tombstone = 0, Type = kind,
                ExpiredAt = (if ttl > 0 then c 1 + 1000000000 * ttl else 0),
                CreatedAt = c 0,
                KeySize = of_nat (length key), ValueSize = of_nat (length (SegValue seg)),
                Key = bytes_of key, SegValue = SegValue seg\<rparr>"
  using assms
  by (auto simp: NewSegment_def time_Now_def split: sum.splits if_splits)

lemma NewSegment_fields:
  assumes "fst (NewSegment transformer key data ttl c) = Inr seg"
  shows "Tombstone seg = 0" and "toKind data = Inr (Type seg)"
    and "ExpiredAt seg = (if ttl > 0 then c 1 + 1000000000 * ttl else 0)"
    and "CreatedAt seg = c 0"
    and "KeySize seg = of_nat (length key)"
    and "ValueSize seg = of_nat (length (SegValue seg))"
    and "Key seg = bytes_of key"
proof -
  from NewSegment_InrD [OF assms] obtain kind where k: "toKind data = Inr kind"
    and seg: "seg = \<lparr>Tombstone = 0, Type = kind,
                ExpiredAt = (if ttl > 0 then c 1 + 1000000000 * ttl else 0),
                CreatedAt = c 0,
                KeySize = of_nat (length key), ValueSize = of_nat (length (SegValue seg)),
                Key = bytes_of key, SegValue = SegValue seg\<rparr>"
    by blast
  show "Tombstone seg = 0" by (subst seg) simp
  have "Type seg = kind" by (subst seg) simp
  with k show "toKind data = Inr (Type seg)" by simp
  show "ExpiredAt seg = (if ttl > 0 then c 1 + 1000000000 * ttl else 0)" by (subst seg) simp
  show "CreatedAt seg = c 0" by (subst seg) simp
  show "KeySize seg = of_nat (length key)" by (subst seg) simp
  show "ValueSize seg = of_nat (length (SegValue seg))" by (subst seg) simp
  show "Key seg = bytes_of key" by (subst seg) simp
qed

lemma NewSegment_unsupported:
  "toKind data = Inl err \<Longrightarrow>
   NewSegment transformer key data ttl c =
     (Inl (wrapError (''unsupported data type: '' @ Error err) err), c)"
  by (simp add: NewSegment_def fmt_Errorf_w_def)

lemma example_segment_built:
  "fst (NewSegment identity_transformer ''user:1''
          (Number_value example_Marshal (NewNumber 42)) ttl c)
   = Inr (example_segment (c 0) (if ttl > 0 then c 1 + 1000000000 * ttl else 0))"
proof -
  have "toKind (Number_value example_Marshal (NewNumber 42)) = Inr Number"
    by (simp add: toKind_def Number_value_def)
  moreover have "ToBSON (Number_value example_Marshal (NewNumber 42))
      = Inr [42, 0, 0, 0, 0, 0, 0, 0, 0, 0, 0, 0, 0, 0, 0, 0]"
    by (simp add: Number_value_def Number_ToBSON_def example_Marshal_def NewNumber_def le64_def)
  moreover have "Encode identity_transformer [42, 0, 0, 0, 0, 0, 0, 0, 0, 0, 0, 0, 0, 0, 0, 0]
      = Inr [42, 0, 0, 0, 0, 0, 0, 0, 0, 0, 0, 0, 0, 0, 0, 0]"
    by (simp add: identity_transformer_def)
  ultimately show ?thesis
    by (simp add: NewSegment_Inr example_segment_def bytes_of_def)
qed

subsection \<open>The type switch\<close>

lemma toKind_simps:
  "toKind \<lparr>dyntype = types_Set, ToBSON = b\<rparr> = Inr Set"
  "toKind \<lparr>dyntype = types_ZSet, ToBSON = b\<rparr> = Inr ZSet"
  "toKind \<lparr>dyntype = types_List, ToBSON = b\<rparr> = Inr List"
  "toKind \<lparr>dyntype = types_Text, ToBSON = b\<rparr> = Inr Text"
  "toKind \<lparr>dyntype = types_Table, ToBSON = b\<rparr> = Inr Table"
  "toKind \<lparr>dyntype = types_Number, ToBSON = b\<rparr> = Inr Number"
  "toKind \<lparr>dyntype = Pointer types_Number, ToBSON = b\<rparr> = Inr Number"
  by (simp_all add: toKind_def)

lemma toKind_default:
  "dyntype data \<notin> {types_Set, types_ZSet, types_List, types_Text, types_Table,
                     types_Number, Pointer types_Number}
   \<Longrightarrow> toKind data = Inl (errorString ''unknown data type'')"
  unfolding toKind_def
  by (cases "dyntype data" rule: type_switch.cases) (simp_all add: errors_New_def)

text \<open>
  Claim C9. The type switch treats pointers unevenly: a Number and a pointer to a Number
  both get the tag \<open>Number\<close>, while of the other five types only the value is mapped; a
  pointer to a Set, ZSet, List, Text or Table is rejected with the unknown-type error, and
  \<open>NewSegment\<close> fails on it.
\<close>

theorem toKind_pointer_asymmetry_C9:
  "toKind (Number_value bson_Marshal num) = Inr Number
   \<and> toKind (Number_pointer bson_Marshal num) = Inr Number
   \<and> toKind \<lparr>dyntype = types_Set, ToBSON = b\<rparr> = Inr Set
   \<and> toKind \<lparr>dyntype = types_ZSet, ToBSON = b\<rparr> = Inr ZSet
   \<and> toKind \<lparr>dyntype = types_List, ToBSON = b\<rparr> = Inr List
   \<and> toKind \<lparr>dyntype = types_Text, ToBSON = b\<rparr> = Inr Text
   \<and> toKind \<lparr>dyntype = types_Table, ToBSON = b\<rparr> = Inr Table
   \<and> toKind \<lparr>dyntype = Pointer types_Set, ToBSON = b\<rparr> = Inl (errorString ''unknown data type'')
   \<and> toKind \<lparr>dyntype = Pointer types_ZSet, ToBSON = b\<rparr> = Inl (errorString ''unknown data type'')
   \<and> toKind \<lparr>dyntype = Pointer types_List, ToBSON = b\<rparr> = Inl (errorString ''unknown data type'')
   \<and> toKind \<lparr>dyntype = Pointer types_Text, ToBSON = b\<rparr> = Inl (errorString ''unknown data type'')
   \<and> toKind \<lparr>dyntype = Pointer types_Table, ToBSON = b\<rparr> = Inl (errorString ''unknown data type'')
   \<and> fst (NewSegment transformer key \<lparr>dyntype = Pointer types_Set, ToBSON = b\<rparr> ttl c)
       = Inl (wrapError ''unsupported data type: unknown data type''
                (errorString ''unknown data type''))
   \<and> fst (NewSegment transformer key \<lparr>dyntype = Pointer types_ZSet, ToBSON = b\<rparr> ttl c)
       = Inl (wrapError ''unsupported data type: unknown data type''
                (errorString ''unknown data type''))
   \<and> fst (NewSegment transformer key \<lparr>dyntype = Pointer types_List, ToBSON = b\<rparr> ttl c)
       = Inl (wrapError ''unsupported data type: unknown data type''
                (errorString ''unknown data type''))
   \<and> fst (NewSegment transformer key \<lparr>dyntype = Pointer types_Text, ToBSON = b\<rparr> ttl c)
       = Inl (wrapError ''unsupported data type: unknown data type''
                (errorString ''unknown data type''))
   \<and> fst (NewSegment transformer key \<lparr>dyntype = Pointer types_Table, ToBSON = b\<rparr> ttl c)
       = Inl (wrapError ''unsupported data type: unknown data type''
                (errorString ''unknown data type''))"
  by (simp add: toKind_simps toKind_default NewSegment_unsupported Number_value_def
      Number_pointer_def)

text \<open>
  Claim C3, as the code has it. \<open>toKind\<close> maps a Set, ZSet, List, Text, Table or Number
  value to its tag without an error, and a pointer to a Number to the tag \<open>Number\<close> as
  well. Every other input fails with one fixed error, \<^verbatim>\<open>unknown data type\<close>, which
  \<open>NewSegment\<close> wraps as \<^verbatim>\<open>unsupported data type: unknown data type\<close>; the error says
  nothing about the value that was rejected.
\<close>

theorem toKind_total_C3:
  "toKind \<lparr>dyntype = types_Set, ToBSON = b\<rparr> = Inr Set
   \<and> toKind \<lparr>dyntype = types_ZSet, ToBSON = b\<rparr> = Inr ZSet
   \<and> toKind \<lparr>dyntype = types_List, ToBSON = b\<rparr> = Inr List
   \<and> toKind \<lparr>dyntype = types_Text, ToBSON = b\<rparr> = Inr Text
   \<and> toKind \<lparr>dyntype = types_Table, ToBSON = b\<rparr> = Inr Table
   \<and> toKind \<lparr>dyntype = types_Number, ToBSON = b\<rparr> = Inr Number
   \<and> toKind \<lparr>dyntype = Pointer types_Number, ToBSON = b\<rparr> = Inr Number
   \<and> (dyntype data \<notin> {types_Set, types_ZSet, types_List, types_Text, types_Table,
                        types_Number, Pointer types_Number}
        \<longrightarrow> toKind data = Inl (errorString ''unknown data type'')
          \<and> fst (NewSegment transformer key data ttl c)
              = Inl (wrapError ''unsupported data type: unknown data type''
                       (errorString ''unknown data type'')))"
  by (simp add: toKind_simps toKind_default NewSegment_unsupported)

theorem toKind_total_C3_witness:
  "dyntype \<lparr>dyntype = Pointer types_Table, ToBSON = Inr []\<rparr>
     \<notin> {types_Set, types_ZSet, types_List, types_Text, types_Table,
         types_Number, Pointer types_Number}
   \<and> toKind \<lparr>dyntype = Pointer types_Table, ToBSON = Inr []\<rparr>
       = Inl (errorString ''unknown data type'')
   \<and> fst (NewSegment identity_transformer ''user:1''
             \<lparr>dyntype = Pointer types_Table, ToBSON = Inr []\<rparr> 0 steady_clock)
       = Inl (wrapError ''unsupported data type: unknown data type''
                (errorString ''unknown data type''))"
  using toKind_total_C3 [of "Inr []" "\<lparr>dyntype = Pointer types_Table, ToBSON = Inr []\<rparr>"
      identity_transformer "''user:1''" 0 steady_clock]
  by simp

text \<open>
  The claim as stated fails: the error for a rejected pointer to a Set is the same fixed
  text as for a rejected \<^verbatim>\<open>main.Blob\<close>, and the text contains neither type; and a pointer
  to a Number, which is not one of the six value variants, is accepted.
\<close>

theorem toKind_total_C3_counterexample:
  "toKind \<lparr>dyntype = Pointer types_Set, ToBSON = Inr []\<rparr>
     = Inl (errorString ''unknown data type'')
   \<and> toKind \<lparr>dyntype = Named ''main.Blob'', ToBSON = Inr []\<rparr>
       = Inl (errorString ''unknown data type'')
   \<and> \<not> contains (type_string (Pointer types_Set)) (Error (errorString ''unknown data type''))
   \<and> \<not> contains (type_string (Named ''main.Blob'')) (Error (errorString ''unknown data type''))
   \<and> toKind (Number_pointer example_Marshal (NewNumber 42)) = Inr Number"
  by (simp add: toKind_def errors_New_def Number_pointer_def)

subsection \<open>Conversions\<close>

text \<open>
  Claim C2, as the code has it. When the kind of a segment is not the requested one, each
  of the six conversions fails, with a fixed message that names the requested kind only,
  and returns no value; so \<open>ToText\<close> fails on a segment that \<open>NewSegment\<close> built from a
  Number.
\<close>

theorem conversion_mismatch_C2:
  "(Type s \<noteq> Set \<longrightarrow> ToSet u1 s = Inl (errorString ''not support conversion to set type''))
   \<and> (Type s \<noteq> ZSet \<longrightarrow> ToZSet u2 s = Inl (errorString ''not support conversion to zset type''))
   \<and> (Type s \<noteq> List \<longrightarrow> ToList u3 s = Inl (errorString ''not support conversion to list type''))
   \<and> (Type s \<noteq> Text \<longrightarrow> ToText u4 s = Inl (errorString ''not support conversion to text type''))
   \<and> (Type s \<noteq> Table
        \<longrightarrow> ToTable u5 s = Inl (errorString ''not support conversion to table type''))
   \<and> (Type s \<noteq> Number
        \<longrightarrow> ToNumber u6 s = Inl (errorString ''not support conversion to number type''))
   \<and> (fst (NewSegment transformer key (Number_value bson_Marshal num) ttl c) = Inr seg
        \<longrightarrow> ToText u4 seg = Inl (errorString ''not support conversion to text type''))"
proof -
  have "Type seg = Number"
    if "fst (NewSegment transformer key (Number_value bson_Marshal num) ttl c) = Inr seg"
    using NewSegment_fields(2) [OF that] by (simp add: toKind_def Number_value_def)
  then show ?thesis
    by (simp add: ToSet_def ToZSet_def ToList_def ToText_def ToTable_def ToNumber_def
        fmt_Errorf_def)
qed

theorem conversion_mismatch_C2_witness:
  "Type (fst (NewTombstoneSegment ''user:1'' steady_clock)) \<noteq> Set
   \<and> Type (fst (NewTombstoneSegment ''user:1'' steady_clock)) \<noteq> ZSet
   \<and> Type (fst (NewTombstoneSegment ''user:1'' steady_clock)) \<noteq> List
   \<and> Type (fst (NewTombstoneSegment ''user:1'' steady_clock)) \<noteq> Text
   \<and> Type (fst (NewTombstoneSegment ''user:1'' steady_clock)) \<noteq> Table
   \<and> Type (fst (NewTombstoneSegment ''user:1'' steady_clock)) \<noteq> Number
   \<and> ToSet example_Unmarshal (fst (NewTombstoneSegment ''user:1'' steady_clock))
       = Inl (errorString ''not support conversion to set type'')
   \<and> ToZSet example_Unmarshal (fst (NewTombstoneSegment ''user:1'' steady_clock))
       = Inl (errorString ''not support conversion to zset type'')
   \<and> ToList example_Unmarshal (fst (NewTombstoneSegment ''user:1'' steady_clock))
       = Inl (errorString ''not support conversion to list type'')
   \<and> ToText example_Unmarshal (fst (NewTombstoneSegment ''user:1'' steady_clock))
       = Inl (errorString ''not support conversion to text type'')
   \<and> ToTable example_Unmarshal (fst (NewTombstoneSegment ''user:1'' steady_clock))
       = Inl (errorString ''not support conversion to table type'')
   \<and> ToNumber example_Unmarshal (fst (NewTombstoneSegment ''user:1'' steady_clock))
       = Inl (errorString ''not support conversion to number type'')
   \<and> fst (NewSegment identity_transformer ''user:1''
             (Number_value example_Marshal (NewNumber 42)) 0 steady_clock)
       = Inr (example_segment 1700000000000000000 0)
   \<and> ToText example_Unmarshal (example_segment 1700000000000000000 0)
       = Inl (errorString ''not support conversion to text type'')"
  using conversion_mismatch_C2 [of "fst (NewTombstoneSegment ''user:1'' steady_clock)"
      example_Unmarshal example_Unmarshal example_Unmarshal example_Unmarshal example_Unmarshal
      example_Unmarshal identity_transformer "''user:1''" example_Marshal "NewNumber 42" 0
      steady_clock "example_segment 1700000000000000000 0"]
    example_segment_built [of 0 steady_clock]
  by (simp add: NewTombstoneSegment_def time_Now_def steady_clock_def)

text \<open>
  The claim as stated fails: on a segment built from the Number 42, \<open>ToText\<close> fails with a
  message that names the requested kind, \<open>text\<close>, and not the kind of the segment,
  \<open>number\<close>.
\<close>

theorem conversion_mismatch_C2_counterexample:
  "fst (NewSegment identity_transformer ''user:1''
          (Number_value example_Marshal (NewNumber 42)) 0 steady_clock)
     = Inr (example_segment 1700000000000000000 0)
   \<and> Type (example_segment 1700000000000000000 0) = Number
   \<and> ToText example_Unmarshal (example_segment 1700000000000000000 0)
       = Inl (errorString ''not support conversion to text type'')
   \<and> contains (Kind_name Text) (Error (errorString ''not support conversion to text type''))
   \<and> \<not> contains (Kind_name (Type (example_segment 1700000000000000000 0)))
           (Error (errorString ''not support conversion to text type''))"
  using example_segment_built [of 0 steady_clock]
  by (simp add: example_segment_def ToText_def fmt_Errorf_def steady_clock_def)

subsection \<open>Timestamps\<close>

lemma unat_affine64:
  "unat (a::64 word) + 1000000000 * unat (t::64 word) < 2 ^ 64
   \<Longrightarrow> unat (a + 1000000000 * t) = unat a + 1000000000 * unat t"
  by (simp add: unat_word_ariths)

text \<open>
  Claim C4, as the code has it. On success the segment's \<open>CreatedAt\<close> is the clock reading
  taken at construction. With a zero ttl \<open>ExpiredAt\<close> is 0. With a positive ttl the clock
  is read a second time, and \<open>ExpiredAt\<close> is that second reading plus
  \<open>ttl * 1000000000\<close>, in 64-bit arithmetic (the exact sum when it is below \<open>2 ^ 64\<close>); it
  is \<open>CreatedAt + ttl * 1000000000\<close> when the two readings are the same instant.
\<close>

theorem NewSegment_timestamps_C4:
  assumes "fst (NewSegment transformer key data ttl c) = Inr seg"
  shows "CreatedAt seg = c 0
   \<and> (ttl = 0 \<longrightarrow> ExpiredAt seg = 0)
   \<and> (ttl > 0 \<longrightarrow> ExpiredAt seg = c 1 + 1000000000 * ttl)
   \<and> (ttl > 0 \<and> unat (c 1) + 1000000000 * unat ttl < 2 ^ 64
        \<longrightarrow> unat (ExpiredAt seg) = unat (c 1) + 1000000000 * unat ttl)
   \<and> (ttl > 0 \<and> c 1 = c 0 \<longrightarrow> ExpiredAt seg = CreatedAt seg + 1000000000 * ttl)"
  using NewSegment_fields(3,4) [OF assms] by (simp add: unat_affine64)

theorem NewSegment_timestamps_C4_witness:
  "fst (NewSegment identity_transformer ''user:1''
          (Number_value example_Marshal (NewNumber 42)) 60 steady_clock)
     = Inr (example_segment 1700000000000000000 1700000060000000000)
   \<and> (60::64 word) > 0
   \<and> steady_clock 1 = steady_clock 0
   \<and> unat (steady_clock 1) + 1000000000 * unat (60::64 word) < 2 ^ 64
   \<and> CreatedAt (example_segment 1700000000000000000 1700000060000000000) = steady_clock 0
   \<and> ExpiredAt (example_segment 1700000000000000000 1700000060000000000)
       = steady_clock 1 + 1000000000 * 60
   \<and> unat (ExpiredAt (example_segment 1700000000000000000 1700000060000000000))
       = 1700000000000000000 + 1000000000 * 60
   \<and> ExpiredAt (example_segment 1700000000000000000 1700000060000000000)
       = CreatedAt (example_segment 1700000000000000000 1700000060000000000) + 1000000000 * 60
   \<and> fst (NewSegment identity_transformer ''user:1''
          (Number_value example_Marshal (NewNumber 42)) 0 steady_clock)
       = Inr (example_segment 1700000000000000000 0)
   \<and> ExpiredAt (example_segment 1700000000000000000 0) = 0"
  using NewSegment_timestamps_C4 [of identity_transformer "''user:1''"
      "Number_value example_Marshal (NewNumber 42)" 60 steady_clock
      "example_segment 1700000000000000000 1700000060000000000"]
    NewSegment_timestamps_C4 [of identity_transformer "''user:1''"
      "Number_value example_Marshal (NewNumber 42)" 0 steady_clock
      "example_segment 1700000000000000000 0"]
    example_segment_built [of 60 steady_clock] example_segment_built [of 0 steady_clock]
  by (simp add: steady_clock_def)

text \<open>
  The claim as stated fails: on a clock that advances by 100 nanoseconds between two
  readings and with a ttl of one second, \<open>ExpiredAt\<close> is 100 nanoseconds more than
  \<open>CreatedAt\<close> plus one second.
\<close>

theorem NewSegment_timestamps_C4_counterexample:
  "fst (NewSegment identity_transformer ''user:1''
          (Number_value example_Marshal (NewNumber 42)) 1 ticking_clock)
     = Inr (example_segment 1700000000000000000 1700000001000000100)
   \<and> CreatedAt (example_segment 1700000000000000000 1700000001000000100)
       = 1700000000000000000
   \<and> ExpiredAt (example_segment 1700000000000000000 1700000001000000100)
       = 1700000001000000100
   \<and> ExpiredAt (example_segment 1700000000000000000 1700000001000000100)
       \<noteq> CreatedAt (example_segment 1700000000000000000 1700000001000000100)
           + 1 * 1000000000"
  using example_segment_built [of 1 ticking_clock]
  by (simp add: example_segment_def ticking_clock_def)

subsection \<open>Remaining time to live\<close>

lemma sint_small64:
  assumes "unat (w::64 word) < 2 ^ 63"
  shows "sint w = int (unat w)"
proof -
  have "int (unat w) < int (2 ^ 63)" using assms by (simp only: of_nat_less_iff)
  then have lt: "uint w < 2 ^ 63" by simp
  have "- (2 ^ 63) \<le> (0::int)" by simp
  also have "0 \<le> uint w" by simp
  finally have ge: "- (2 ^ 63) \<le> uint w" .
  have "sint w = signed_take_bit 63 (uint w)"
    by (simp only: sint_uint) simp
  also have "\<dots> = uint w"
    using ge lt by (rule signed_take_bit_int_eq_self)
  also have "\<dots> = int (unat w)" by (rule uint_nat)
  finally show ?thesis .
qed

lemma Segment_TTL_value:
  "fst (Segment_TTL s c) =
     (if ExpiredAt s > 0 \<and> ExpiredAt s > c 0 then ExpiredAt s - c 0 else - 1)"
  by (simp add: Segment_TTL_def time_Now_def)

lemma Segment_TTL_live:
  assumes "unat (c 0) < unat (ExpiredAt s)" and "unat (ExpiredAt s) - unat (c 0) < 2 ^ 63"
  shows "sint (fst (Segment_TTL s c)) = int (unat (ExpiredAt s)) - int (unat (c 0))"
    and "0 < sint (fst (Segment_TTL s c))"
proof -
  from assms(1) have lt: "c 0 < ExpiredAt s" by (simp add: word_less_nat_alt)
  then have le: "c 0 \<le> ExpiredAt s" by simp
  have "0 \<le> c 0" by simp
  then have pos: "0 < ExpiredAt s" using lt by (rule le_less_trans)
  have v: "fst (Segment_TTL s c) = ExpiredAt s - c 0"
    using lt pos by (simp add: Segment_TTL_value)
  have u: "unat (ExpiredAt s - c 0) = unat (ExpiredAt s) - unat (c 0)"
    using le by (rule unat_sub)
  with assms(2) have "sint (ExpiredAt s - c 0) = int (unat (ExpiredAt s - c 0))"
    by (intro sint_small64) simp
  with u assms(1) show "sint (fst (Segment_TTL s c)) = int (unat (ExpiredAt s)) - int (unat (c 0))"
    by (simp add: v of_nat_diff)
  with lt show "0 < sint (fst (Segment_TTL s c))" by (simp add: word_less_def)
qed

lemma Segment_TTL_over:
  assumes "unat (ExpiredAt s) \<le> unat (c 0)"
  shows "fst (Segment_TTL s c) = - 1"
proof -
  from assms have "\<not> c 0 < ExpiredAt s" by (simp add: word_less_nat_alt)
  then show ?thesis by (simp add: Segment_TTL_value)
qed

text \<open>
  Claim C5, as the code has it. \<open>Segment_TTL\<close> reads the clock once. When \<open>ExpiredAt\<close> is
  above the reading it returns \<open>ExpiredAt\<close> minus the reading as a signed 64-bit value,
  which is the exact difference, and positive, when the difference is below \<open>2 ^ 63\<close>;
  in every other case (no expiry, or expired) it returns \<open>-1\<close>. So a segment built with a
  zero ttl gives \<open>-1\<close> at every reading; one built with a positive ttl whose expiry does
  not wrap gives a positive value at every reading less than \<open>2 ^ 63\<close> before its
  \<open>ExpiredAt\<close> (the second clock reading of the construction plus the ttl), and \<open>-1\<close> at
  every reading from \<open>ExpiredAt\<close> on.
\<close>

theorem Segment_TTL_C5:
  "fst (Segment_TTL s c) =
     (if ExpiredAt s > 0 \<and> ExpiredAt s > c 0 then ExpiredAt s - c 0 else - 1)
   \<and> (unat (c 0) < unat (ExpiredAt s) \<and> unat (ExpiredAt s) - unat (c 0) < 2 ^ 63
        \<longrightarrow> sint (fst (Segment_TTL s c)) = int (unat (ExpiredAt s)) - int (unat (c 0))
          \<and> 0 < sint (fst (Segment_TTL s c)))
   \<and> (unat (ExpiredAt s) \<le> unat (c 0) \<longrightarrow> sint (fst (Segment_TTL s c)) = - 1)
   \<and> (fst (NewSegment transformer key data 0 c0) = Inr seg0
        \<longrightarrow> sint (fst (Segment_TTL seg0 c)) = - 1)
   \<and> (fst (NewSegment transformer key data ttl c0) = Inr seg \<and> 0 < ttl
        \<and> unat (c0 1) + 1000000000 * unat ttl < 2 ^ 64
        \<longrightarrow> (unat (c 0) < unat (c0 1) + 1000000000 * unat ttl
              \<and> unat (c0 1) + 1000000000 * unat ttl - unat (c 0) < 2 ^ 63
              \<longrightarrow> 0 < sint (fst (Segment_TTL seg c)))
          \<and> (unat (c0 1) + 1000000000 * unat ttl \<le> unat (c 0)
              \<longrightarrow> sint (fst (Segment_TTL seg c)) = - 1))"
proof -
  have zero: "sint (fst (Segment_TTL seg0 c)) = - 1"
    if "fst (NewSegment transformer key data 0 c0) = Inr seg0"
  proof -
    from NewSegment_fields(3) [OF that] have "ExpiredAt seg0 = 0" by simp
    then show ?thesis by (simp add: Segment_TTL_value)
  qed
  have built: "unat (ExpiredAt seg) = unat (c0 1) + 1000000000 * unat ttl"
    if "fst (NewSegment transformer key data ttl c0) = Inr seg" and "0 < ttl"
      and "unat (c0 1) + 1000000000 * unat ttl < 2 ^ 64"
    using NewSegment_fields(3) [OF that(1)] that(2,3) by (simp add: unat_affine64)
  show ?thesis
    using Segment_TTL_live [of c s] Segment_TTL_live [of c seg] Segment_TTL_over [of s c]
      Segment_TTL_over [of seg c] zero built
    by (simp add: Segment_TTL_value)
qed

theorem Segment_TTL_C5_witness:
  "fst (NewSegment identity_transformer ''user:1''
          (Number_value example_Marshal (NewNumber 42)) 60 steady_clock)
     = Inr (example_segment 1700000000000000000 1700000060000000000)
   \<and> sint (fst (Segment_TTL (example_segment 1700000000000000000 1700000060000000000)
                   steady_clock)) = 60000000000
   \<and> sint (fst (Segment_TTL (example_segment 1700000000000000000 1700000060000000000)
                   (\<lambda>n. 1700000060000000000))) = - 1
   \<and> fst (NewSegment identity_transformer ''user:1''
          (Number_value example_Marshal (NewNumber 42)) 0 steady_clock)
       = Inr (example_segment 1700000000000000000 0)
   \<and> sint (fst (Segment_TTL (example_segment 1700000000000000000 0) ticking_clock)) = - 1"
  using Segment_TTL_C5 [of "example_segment 1700000000000000000 1700000060000000000"
      steady_clock identity_transformer "''user:1''"
      "Number_value example_Marshal (NewNumber 42)" steady_clock
      "example_segment 1700000000000000000 0" 60
      "example_segment 1700000000000000000 1700000060000000000"]
    Segment_TTL_C5 [of "example_segment 1700000000000000000 1700000060000000000"
      "\<lambda>n. 1700000060000000000" identity_transformer "''user:1''"
      "Number_value example_Marshal (NewNumber 42)" steady_clock
      "example_segment 1700000000000000000 0" 60
      "example_segment 1700000000000000000 1700000060000000000"]
    Segment_TTL_C5 [of "example_segment 1700000000000000000 0"
      ticking_clock identity_transformer "''user:1''"
      "Number_value example_Marshal (NewNumber 42)" steady_clock
      "example_segment 1700000000000000000 0" 60
      "example_segment 1700000000000000000 1700000060000000000"]
    example_segment_built [of 60 steady_clock] example_segment_built [of 0 steady_clock]
  by (simp add: steady_clock_def ticking_clock_def example_segment_def)

text \<open>
  The claim as stated fails twice. A segment built with a ttl of \<open>10 ^ 10\<close> seconds gives
  a negative value at the very instant of its creation, where a positive one is claimed:
  the difference does not fit a signed 64-bit value. And a segment built with a ttl of one
  second on the clock that advances between readings still gives a positive value 50
  nanoseconds after \<open>CreatedAt\<close> plus one second, where \<open>-1\<close> is claimed.
\<close>

theorem Segment_TTL_C5_counterexample:
  "fst (NewSegment identity_transformer ''user:1''
          (Number_value example_Marshal (NewNumber 42)) 10000000000 steady_clock)
     = Inr (example_segment 1700000000000000000 11700000000000000000)
   \<and> sint (fst (Segment_TTL (example_segment 1700000000000000000 11700000000000000000)
                   steady_clock)) = - 8446744073709551616
   \<and> fst (NewSegment identity_transformer ''user:1''
          (Number_value example_Marshal (NewNumber 42)) 1 ticking_clock)
       = Inr (example_segment 1700000000000000000 1700000001000000100)
   \<and> sint (fst (Segment_TTL (example_segment 1700000000000000000 1700000001000000100)
                   (\<lambda>n. 1700000001000000050))) = 50"
  using example_segment_built [of 10000000000 steady_clock]
    example_segment_built [of 1 ticking_clock]
  by (simp add: steady_clock_def ticking_clock_def example_segment_def Segment_TTL_def
      time_Now_def)

subsection \<open>Sizes and tombstones\<close>

lemma unat_of_nat32: "unat (of_nat n :: 32 word) = n mod 2 ^ 32"
  by (simp add: unat_of_nat)

lemma length_bytes_of: "length (bytes_of key) = length key"
  by (simp add: bytes_of_def)

lemma NewTombstoneSegment_value:
  "fst (NewTombstoneSegment key c) =
     \<lparr>Tombstone = 1, Type = Unknown, ExpiredAt = 0, CreatedAt = c 0,
      KeySize = of_nat (length key), ValueSize = 0, Key = bytes_of key, SegValue = []\<rparr>"
  by (simp add: NewTombstoneSegment_def time_Now_def)

text \<open>
  Claim C6, as the code has it. A segment from either constructor has a key of the length
  of the key given, \<open>KeySize\<close> equal to that length modulo \<open>2 ^ 32\<close> and \<open>ValueSize\<close> equal
  to the length of its value modulo \<open>2 ^ 32\<close>: the sizes are the lengths whenever these
  are below \<open>2 ^ 32\<close>. \<open>NewSegment\<close> sets \<open>Tombstone\<close> to 0. \<open>NewTombstoneSegment\<close> always
  returns a segment, with \<open>Tombstone\<close> 1, kind \<open>Unknown\<close>, an empty value, \<open>ValueSize\<close> 0
  and \<open>ExpiredAt\<close> 0, on which \<open>IsTombstone\<close> holds.
\<close>

theorem constructors_sizes_C6:
  "(fst (NewSegment transformer key data ttl c) = Inr seg
      \<longrightarrow> length (Key seg) = length key
        \<and> unat (KeySize seg) = length key mod 2 ^ 32
        \<and> unat (ValueSize seg) = length (SegValue seg) mod 2 ^ 32
        \<and> (length key < 2 ^ 32 \<longrightarrow> unat (KeySize seg) = length (Key seg))
        \<and> (length (SegValue seg) < 2 ^ 32 \<longrightarrow> unat (ValueSize seg) = length (SegValue seg))
        \<and> Tombstone seg = 0 \<and> \<not> IsTombstone seg)
   \<and> Tombstone (fst (NewTombstoneSegment key c)) = 1
   \<and> IsTombstone (fst (NewTombstoneSegment key c))
   \<and> Type (fst (NewTombstoneSegment key c)) = Unknown
   \<and> SegValue (fst (NewTombstoneSegment key c)) = []
   \<and> ValueSize (fst (NewTombstoneSegment key c)) = 0
   \<and> unat (ValueSize (fst (NewTombstoneSegment key c)))
       = length (SegValue (fst (NewTombstoneSegment key c)))
   \<and> ExpiredAt (fst (NewTombstoneSegment key c)) = 0
   \<and> CreatedAt (fst (NewTombstoneSegment key c)) = c 0
   \<and> length (Key (fst (NewTombstoneSegment key c))) = length key
   \<and> unat (KeySize (fst (NewTombstoneSegment key c))) = length key mod 2 ^ 32
   \<and> (length key < 2 ^ 32
        \<longrightarrow> unat (KeySize (fst (NewTombstoneSegment key c)))
            = length (Key (fst (NewTombstoneSegment key c))))"
proof -
  have live: "length (Key seg) = length key
        \<and> unat (KeySize seg) = length key mod 2 ^ 32
        \<and> unat (ValueSize seg) = length (SegValue seg) mod 2 ^ 32
        \<and> Tombstone seg = 0"
    if "fst (NewSegment transformer key data ttl c) = Inr seg"
    using NewSegment_fields(1,5,6,7) [OF that]
    by (simp add: unat_of_nat32 length_bytes_of)
  have tomb: "unat (KeySize (fst (NewTombstoneSegment key c))) = length key mod 2 ^ 32"
    by (simp add: NewTombstoneSegment_value unat_of_nat32)
  show ?thesis
    using live tomb
    by (simp add: NewTombstoneSegment_value IsTombstone_def length_bytes_of)
qed

theorem constructors_sizes_C6_witness:
  "fst (NewSegment identity_transformer ''user:1''
          (Number_value example_Marshal (NewNumber 42)) 0 steady_clock)
     = Inr (example_segment 1700000000000000000 0)
   \<and> length ''user:1'' < 2 ^ 32
   \<and> length (SegValue (example_segment 1700000000000000000 0)) < 2 ^ 32
   \<and> unat (KeySize (example_segment 1700000000000000000 0)) = 6
   \<and> length (Key (example_segment 1700000000000000000 0)) = 6
   \<and> unat (ValueSize (example_segment 1700000000000000000 0)) = 16
   \<and> length (SegValue (example_segment 1700000000000000000 0)) = 16
   \<and> Tombstone (example_segment 1700000000000000000 0) = 0
   \<and> unat (KeySize (fst (NewTombstoneSegment ''user:1'' steady_clock))) = 6
   \<and> length (Key (fst (NewTombstoneSegment ''user:1'' steady_clock))) = 6
   \<and> IsTombstone (fst (NewTombstoneSegment ''user:1'' steady_clock))"
  using constructors_sizes_C6 [of identity_transformer "''user:1''"
      "Number_value example_Marshal (NewNumber 42)" 0 steady_clock
      "example_segment 1700000000000000000 0"]
    example_segment_built [of 0 steady_clock]
  by (simp add: steady_clock_def example_segment_def)

text \<open>
  The claim as stated fails on a key of \<open>2 ^ 32\<close> bytes: the tombstone for it has a key
  of that length and a \<open>KeySize\<close> of 0.
\<close>

theorem constructors_sizes_C6_counterexample:
  "length (Key (fst (NewTombstoneSegment (replicate 4294967296 CHR ''k'') steady_clock)))
     = 4294967296
   \<and> KeySize (fst (NewTombstoneSegment (replicate 4294967296 CHR ''k'') steady_clock)) = 0
   \<and> unat (KeySize (fst (NewTombstoneSegment (replicate 4294967296 CHR ''k'') steady_clock)))
       \<noteq> length (Key (fst (NewTombstoneSegment (replicate 4294967296 CHR ''k'') steady_clock)))"
  by (simp add: NewTombstoneSegment_def time_Now_def bytes_of_def)

subsection \<open>The length of the wire form\<close>

lemma length_le64: "length (le64 w) = 8"
  by (simp add: le64_def)

lemma length_le32: "length (le32 w) = 4"
  by (simp add: le32_def)

lemma length_header: "length (header s) = 26"
  by (simp add: header_def length_le64 length_le32)

lemma length_serialize:
  "length (serialize crc32 s) = 26 + length (Key s) + length (SegValue s) + 4"
  by (simp add: serialize_def Let_def length_header length_le32)

lemma unat_Size: "unat (Size s) = (26 + unat (KeySize s) + unat (ValueSize s) + 4) mod 2 ^ 32"
  by (simp add: Size_def unat_word_ariths mod_simps)

text \<open>
  Claim C7, as the code has it. \<open>Size\<close> is \<open>26 + KeySize + ValueSize + 4\<close> in 32-bit
  arithmetic, that is modulo \<open>2 ^ 32\<close>, where 26 is the length of the fixed header
  (1 + 1 + 8 + 8 + 4 + 4 bytes) and 4 that of the checksum. The wire form of a segment has
  26 bytes, the key, the value and 4 bytes. For a segment whose sizes are the lengths of
  its key and value, and so for every segment from either constructor, \<open>Size\<close> is the
  length of the wire form whenever that length is below \<open>2 ^ 32\<close>.
\<close>

theorem Size_wire_length_C7:
  "Size s = 26 + KeySize s + ValueSize s + 4
   \<and> unat (Size s) = (26 + unat (KeySize s) + unat (ValueSize s) + 4) mod 2 ^ 32
   \<and> length (header s) = 1 + 1 + 8 + 8 + 4 + 4
   \<and> length (serialize crc32 s) = 26 + length (Key s) + length (SegValue s) + 4
   \<and> (unat (KeySize s) = length (Key s) \<and> unat (ValueSize s) = length (SegValue s)
        \<and> 26 + length (Key s) + length (SegValue s) + 4 < 2 ^ 32
        \<longrightarrow> unat (Size s) = length (serialize crc32 s))
   \<and> (fst (NewSegment transformer key data ttl c) = Inr seg
        \<and> 26 + length key + length (SegValue seg) + 4 < 2 ^ 32
        \<longrightarrow> unat (Size seg) = length (serialize crc32 seg))
   \<and> (26 + length key + 4 < 2 ^ 32
        \<longrightarrow> unat (Size (fst (NewTombstoneSegment key c)))
            = length (serialize crc32 (fst (NewTombstoneSegment key c))))"
proof -
  have inv: "unat (Size s') = length (serialize crc32 s')"
    if "unat (KeySize s') = length (Key s')" and "unat (ValueSize s') = length (SegValue s')"
      and "26 + length (Key s') + length (SegValue s') + 4 < 2 ^ 32" for s'
    using that by (simp add: unat_Size length_serialize)
  have live: "unat (Size seg) = length (serialize crc32 seg)"
    if b: "fst (NewSegment transformer key data ttl c) = Inr seg"
      and l: "26 + length key + length (SegValue seg) + 4 < 2 ^ 32"
  proof (rule inv)
    from l have k: "length key < 2 ^ 32" and v: "length (SegValue seg) < 2 ^ 32" by simp_all
    show "unat (KeySize seg) = length (Key seg)"
      using NewSegment_fields(5,7) [OF b] k by (simp add: unat_of_nat32 length_bytes_of)
    show "unat (ValueSize seg) = length (SegValue seg)"
      using NewSegment_fields(6) [OF b] v by (simp add: unat_of_nat32)
    show "26 + length (Key seg) + length (SegValue seg) + 4 < 2 ^ 32"
      using NewSegment_fields(7) [OF b] l by (simp add: length_bytes_of)
  qed
  have tomb: "unat (Size (fst (NewTombstoneSegment key c)))
            = length (serialize crc32 (fst (NewTombstoneSegment key c)))"
    if "26 + length key + 4 < 2 ^ 32"
    using that
    by (intro inv) (simp_all add: NewTombstoneSegment_value unat_of_nat32 length_bytes_of)
  have size: "Size s = 26 + KeySize s + ValueSize s + 4"
    by (simp add: Size_def)
  have hdr: "length (header s) = 1 + 1 + 8 + 8 + 4 + 4"
    by (simp add: length_header)
  from size unat_Size [of s] hdr length_serialize [of crc32 s] inv [of s] live tomb
  show ?thesis by blast
qed

theorem Size_wire_length_C7_witness:
  "fst (NewSegment identity_transformer ''user:1''
          (Number_value example_Marshal (NewNumber 42)) 0 steady_clock)
     = Inr (example_segment 1700000000000000000 0)
   \<and> unat (KeySize (example_segment 1700000000000000000 0))
       = length (Key (example_segment 1700000000000000000 0))
   \<and> unat (ValueSize (example_segment 1700000000000000000 0))
       = length (SegValue (example_segment 1700000000000000000 0))
   \<and> 26 + length ''user:1'' + length (SegValue (example_segment 1700000000000000000 0)) + 4
       < 2 ^ 32
   \<and> 26 + length ''user:1'' + 4 < 2 ^ 32
   \<and> unat (Size (example_segment 1700000000000000000 0)) = 52
   \<and> length (serialize (\<lambda>bs. 0) (example_segment 1700000000000000000 0)) = 52
   \<and> unat (Size (fst (NewTombstoneSegment ''user:1'' steady_clock))) = 36
   \<and> length (serialize (\<lambda>bs. 0) (fst (NewTombstoneSegment ''user:1'' steady_clock))) = 36"
  using Size_wire_length_C7 [of "example_segment 1700000000000000000 0" "\<lambda>bs. 0"
      identity_transformer "''user:1''" "Number_value example_Marshal (NewNumber 42)" 0
      steady_clock "example_segment 1700000000000000000 0"]
    Size_wire_length_C7 [of "fst (NewTombstoneSegment ''user:1'' steady_clock)" "\<lambda>bs. 0"
      identity_transformer "''user:1''" "Number_value example_Marshal (NewNumber 42)" 0
      steady_clock "example_segment 1700000000000000000 0"]
    example_segment_built [of 0 steady_clock]
  by (simp add: steady_clock_def example_segment_def NewTombstoneSegment_def time_Now_def
      bytes_of_def)

text \<open>
  The claim as stated fails on a key of \<open>2 ^ 32 - 30\<close> bytes: the wire form of its
  tombstone has \<open>2 ^ 32\<close> bytes, and \<open>Size\<close> is 0.
\<close>

theorem Size_wire_length_C7_counterexample:
  "Size (fst (NewTombstoneSegment (replicate 4294967266 CHR ''k'') steady_clock)) = 0
   \<and> length (serialize (\<lambda>bs. 0)
               (fst (NewTombstoneSegment (replicate 4294967266 CHR ''k'') steady_clock)))
       = 4294967296"
  by (simp add: NewTombstoneSegment_def time_Now_def bytes_of_def Size_def serialize_def
      header_def le64_def le32_def)

subsection \<open>The round trip\<close>

text \<open>
  Claim C1, as the code has it. When the canonical encoder and the transformer succeed
  on the Number, \<open>NewSegment\<close> with a zero ttl succeeds for every key, with kind \<open>Number\<close>,
  \<open>Tombstone\<close> 0, \<open>ExpiredAt\<close> 0, \<open>KeySize\<close> the length of the key modulo \<open>2 ^ 32\<close>, and the
  transformer's output as value. The conversions do not undo the transformer: on a
  segment built from a value of its kind, each gives what the canonical decoder gives on
  the stored value, that is on the transformer's output. So \<open>ToNumber\<close> returns the
  original Number, whose \<open>Get\<close> is its value, when the transformer leaves the canonical
  bytes as they are and the decoder inverts the encoder on them.
\<close>

theorem roundtrip_C1:
  "(bson_Marshal num = Inr bytes \<and> Encode transformer bytes = Inr encodedata
      \<longrightarrow> (\<exists>seg. fst (NewSegment transformer key (Number_value bson_Marshal num) 0 c) = Inr seg
            \<and> Type seg = Number \<and> Tombstone seg = 0 \<and> ExpiredAt seg = 0
            \<and> unat (KeySize seg) = length key mod 2 ^ 32
            \<and> SegValue seg = encodedata
            \<and> ToNumber bson_Unmarshal seg = bson_Unmarshal encodedata
            \<and> (encodedata = bytes \<and> bson_Unmarshal bytes = Inr num
                \<longrightarrow> ToNumber bson_Unmarshal seg = Inr num
                  \<and> map_sum id Get (ToNumber bson_Unmarshal seg) = Inr (Value num))))
   \<and> (fst (NewSegment transformer key data ttl c) = Inr seg
      \<longrightarrow> (\<exists>bytes. ToBSON data = Inr bytes \<and> Encode transformer bytes = Inr (SegValue seg))
        \<and> (toKind data = Inr Set \<longrightarrow> ToSet u1 seg = u1 (SegValue seg))
        \<and> (toKind data = Inr ZSet \<longrightarrow> ToZSet u2 seg = u2 (SegValue seg))
        \<and> (toKind data = Inr List \<longrightarrow> ToList u3 seg = u3 (SegValue seg))
        \<and> (toKind data = Inr Text \<longrightarrow> ToText u4 seg = u4 (SegValue seg))
        \<and> (toKind data = Inr Table \<longrightarrow> ToTable u5 seg = u5 (SegValue seg))
        \<and> (toKind data = Inr Number \<longrightarrow> ToNumber u6 seg = u6 (SegValue seg)))"
proof -
  have case_id: "(case r of Inl err \<Rightarrow> Inl err | Inr v \<Rightarrow> Inr v) = r" for r :: "error + 'z"
    by (cases r) simp_all
  have number: "\<exists>seg. fst (NewSegment transformer key (Number_value bson_Marshal num) 0 c) = Inr seg
            \<and> Type seg = Number \<and> Tombstone seg = 0 \<and> ExpiredAt seg = 0
            \<and> unat (KeySize seg) = length key mod 2 ^ 32
            \<and> SegValue seg = encodedata
            \<and> ToNumber bson_Unmarshal seg = bson_Unmarshal encodedata"
    if m: "bson_Marshal num = Inr bytes" and e: "Encode transformer bytes = Inr encodedata"
  proof -
    have k: "toKind (Number_value bson_Marshal num) = Inr Number"
      by (simp add: toKind_def Number_value_def)
    have b: "ToBSON (Number_value bson_Marshal num) = Inr bytes"
      using m by (simp add: Number_value_def Number_ToBSON_def)
    show ?thesis
      by (simp add: NewSegment_Inr [OF k b e] unat_of_nat32 ToNumber_def case_id)
  qed
  have general: "(\<exists>bytes. ToBSON data = Inr bytes \<and> Encode transformer bytes = Inr (SegValue seg))
        \<and> toKind data = Inr (Type seg)"
    if "fst (NewSegment transformer key data ttl c) = Inr seg"
    using NewSegment_InrD [OF that] NewSegment_fields(2) [OF that] by blast
  have conv: "(Type seg = Set \<longrightarrow> ToSet u1 seg = u1 (SegValue seg))
        \<and> (Type seg = ZSet \<longrightarrow> ToZSet u2 seg = u2 (SegValue seg))
        \<and> (Type seg = List \<longrightarrow> ToList u3 seg = u3 (SegValue seg))
        \<and> (Type seg = Text \<longrightarrow> ToText u4 seg = u4 (SegValue seg))
        \<and> (Type seg = Table \<longrightarrow> ToTable u5 seg = u5 (SegValue seg))
        \<and> (Type seg = Number \<longrightarrow> ToNumber u6 seg = u6 (SegValue seg))"
    by (simp add: ToSet_def ToZSet_def ToList_def ToText_def ToTable_def ToNumber_def case_id)
  have second: "(\<exists>bytes. ToBSON data = Inr bytes \<and> Encode transformer bytes = Inr (SegValue seg))
        \<and> (toKind data = Inr Set \<longrightarrow> ToSet u1 seg = u1 (SegValue seg))
        \<and> (toKind data = Inr ZSet \<longrightarrow> ToZSet u2 seg = u2 (SegValue seg))
        \<and> (toKind data = Inr List \<longrightarrow> ToList u3 seg = u3 (SegValue seg))
        \<and> (toKind data = Inr Text \<longrightarrow> ToText u4 seg = u4 (SegValue seg))
        \<and> (toKind data = Inr Table \<longrightarrow> ToTable u5 seg = u5 (SegValue seg))
        \<and> (toKind data = Inr Number \<longrightarrow> ToNumber u6 seg = u6 (SegValue seg))"
    if "fst (NewSegment transformer key data ttl c) = Inr seg"
    using general [OF that] conv by simp
  have first: "\<exists>seg. fst (NewSegment transformer key (Number_value bson_Marshal num) 0 c) = Inr seg
            \<and> Type seg = Number \<and> Tombstone seg = 0 \<and> ExpiredAt seg = 0
            \<and> unat (KeySize seg) = length key mod 2 ^ 32
            \<and> SegValue seg = encodedata
            \<and> ToNumber bson_Unmarshal seg = bson_Unmarshal encodedata
            \<and> (encodedata = bytes \<and> bson_Unmarshal bytes = Inr num
                \<longrightarrow> ToNumber bson_Unmarshal seg = Inr num
                  \<and> map_sum id Get (ToNumber bson_Unmarshal seg) = Inr (Value num))"
    if "bson_Marshal num = Inr bytes" and "Encode transformer bytes = Inr encodedata"
  proof -
    from number [OF that] obtain seg where
      s: "fst (NewSegment transformer key (Number_value bson_Marshal num) 0 c) = Inr seg"
        "Type seg = Number" "Tombstone seg = 0" "ExpiredAt seg = 0"
        "unat (KeySize seg) = length key mod 2 ^ 32" "SegValue seg = encodedata"
        "ToNumber bson_Unmarshal seg = bson_Unmarshal encodedata"
      by blast
    have "encodedata = bytes \<and> bson_Unmarshal bytes = Inr num
                \<longrightarrow> ToNumber bson_Unmarshal seg = Inr num
                  \<and> map_sum id Get (ToNumber bson_Unmarshal seg) = Inr (Value num)"
      using s(7) by (simp add: Get_def)
    with s show ?thesis by blast
  qed
  from first second show ?thesis by blast
qed

theorem roundtrip_C1_witness:
  "example_Marshal (NewNumber 42) = Inr [42, 0, 0, 0, 0, 0, 0, 0, 0, 0, 0, 0, 0, 0, 0, 0]
   \<and> Encode identity_transformer [42, 0, 0, 0, 0, 0, 0, 0, 0, 0, 0, 0, 0, 0, 0, 0]
       = Inr [42, 0, 0, 0, 0, 0, 0, 0, 0, 0, 0, 0, 0, 0, 0, 0]
   \<and> example_Unmarshal [42, 0, 0, 0, 0, 0, 0, 0, 0, 0, 0, 0, 0, 0, 0, 0] = Inr (NewNumber 42)
   \<and> fst (NewSegment identity_transformer ''user:1''
             (Number_value example_Marshal (NewNumber 42)) 0 steady_clock)
       = Inr (example_segment 1700000000000000000 0)
   \<and> Type (example_segment 1700000000000000000 0) = Number
   \<and> Tombstone (example_segment 1700000000000000000 0) = 0
   \<and> ExpiredAt (example_segment 1700000000000000000 0) = 0
   \<and> unat (KeySize (example_segment 1700000000000000000 0)) = 6
   \<and> toKind (Number_value example_Marshal (NewNumber 42)) = Inr Number
   \<and> ToNumber example_Unmarshal (example_segment 1700000000000000000 0) = Inr (NewNumber 42)
   \<and> map_sum id Get (ToNumber example_Unmarshal (example_segment 1700000000000000000 0)) = Inr 42
   \<and> toKind \<lparr>dyntype = types_Set, ToBSON = Inr [1, 2, 3]\<rparr> = Inr Set
   \<and> fst (NewSegment identity_transformer ''user:1''
             \<lparr>dyntype = types_Set, ToBSON = Inr [1, 2, 3]\<rparr> 0 steady_clock)
       = Inr ((example_segment 1700000000000000000 0)
               \<lparr>Type := Set, ValueSize := 3, SegValue := [1, 2, 3]\<rparr>)
   \<and> ToSet Inr ((example_segment 1700000000000000000 0)
               \<lparr>Type := Set, ValueSize := 3, SegValue := [1, 2, 3]\<rparr>) = Inr [1, 2, 3]
   \<and> toKind \<lparr>dyntype = types_ZSet, ToBSON = Inr [1, 2, 3]\<rparr> = Inr ZSet
   \<and> fst (NewSegment identity_transformer ''user:1''
             \<lparr>dyntype = types_ZSet, ToBSON = Inr [1, 2, 3]\<rparr> 0 steady_clock)
       = Inr ((example_segment 1700000000000000000 0)
               \<lparr>Type := ZSet, ValueSize := 3, SegValue := [1, 2, 3]\<rparr>)
   \<and> ToZSet Inr ((example_segment 1700000000000000000 0)
               \<lparr>Type := ZSet, ValueSize := 3, SegValue := [1, 2, 3]\<rparr>) = Inr [1, 2, 3]
   \<and> toKind \<lparr>dyntype = types_List, ToBSON = Inr [1, 2, 3]\<rparr> = Inr List
   \<and> fst (NewSegment identity_transformer ''user:1''
             \<lparr>dyntype = types_List, ToBSON = Inr [1, 2, 3]\<rparr> 0 steady_clock)
       = Inr ((example_segment 1700000000000000000 0)
               \<lparr>Type := List, ValueSize := 3, SegValue := [1, 2, 3]\<rparr>)
   \<and> ToList Inr ((example_segment 1700000000000000000 0)
               \<lparr>Type := List, ValueSize := 3, SegValue := [1, 2, 3]\<rparr>) = Inr [1, 2, 3]
   \<and> toKind \<lparr>dyntype = types_Text, ToBSON = Inr [1, 2, 3]\<rparr> = Inr Text
   \<and> fst (NewSegment identity_transformer ''user:1''
             \<lparr>dyntype = types_Text, ToBSON = Inr [1, 2, 3]\<rparr> 0 steady_clock)
       = Inr ((example_segment 1700000000000000000 0)
               \<lparr>Type := Text, ValueSize := 3, SegValue := [1, 2, 3]\<rparr>)
   \<and> ToText Inr ((example_segment 1700000000000000000 0)
               \<lparr>Type := Text, ValueSize := 3, SegValue := [1, 2, 3]\<rparr>) = Inr [1, 2, 3]
   \<and> toKind \<lparr>dyntype = types_Table, ToBSON = Inr [1, 2, 3]\<rparr> = Inr Table
   \<and> fst (NewSegment identity_transformer ''user:1''
             \<lparr>dyntype = types_Table, ToBSON = Inr [1, 2, 3]\<rparr> 0 steady_clock)
       = Inr ((example_segment 1700000000000000000 0)
               \<lparr>Type := Table, ValueSize := 3, SegValue := [1, 2, 3]\<rparr>)
   \<and> ToTable Inr ((example_segment 1700000000000000000 0)
               \<lparr>Type := Table, ValueSize := 3, SegValue := [1, 2, 3]\<rparr>) = Inr [1, 2, 3]"
  using roundtrip_C1 [of example_Marshal "NewNumber 42"
      "[42, 0, 0, 0, 0, 0, 0, 0, 0, 0, 0, 0, 0, 0, 0, 0]" identity_transformer
      "[42, 0, 0, 0, 0, 0, 0, 0, 0, 0, 0, 0, 0, 0, 0, 0]" "''user:1''" steady_clock example_Unmarshal
      "Number_value example_Marshal (NewNumber 42)" 0
      "example_segment 1700000000000000000 0"
      Inr Inr Inr Inr Inr example_Unmarshal]
    roundtrip_C1 [of example_Marshal "NewNumber 42"
      "[42, 0, 0, 0, 0, 0, 0, 0, 0, 0, 0, 0, 0, 0, 0, 0]" identity_transformer
      "[42, 0, 0, 0, 0, 0, 0, 0, 0, 0, 0, 0, 0, 0, 0, 0]" "''user:1''" steady_clock example_Unmarshal
      "\<lparr>dyntype = types_Set, ToBSON = Inr [1, 2, 3]\<rparr>" 0
      "(example_segment 1700000000000000000 0)\<lparr>Type := Set, ValueSize := 3, SegValue := [1, 2, 3]\<rparr>"
      Inr Inr Inr Inr Inr example_Unmarshal]
    roundtrip_C1 [of example_Marshal "NewNumber 42"
      "[42, 0, 0, 0, 0, 0, 0, 0, 0, 0, 0, 0, 0, 0, 0, 0]" identity_transformer
      "[42, 0, 0, 0, 0, 0, 0, 0, 0, 0, 0, 0, 0, 0, 0, 0]" "''user:1''" steady_clock example_Unmarshal
      "\<lparr>dyntype = types_ZSet, ToBSON = Inr [1, 2, 3]\<rparr>" 0
      "(example_segment 1700000000000000000 0)\<lparr>Type := ZSet, ValueSize := 3, SegValue := [1, 2, 3]\<rparr>"
      Inr Inr Inr Inr Inr example_Unmarshal]
    roundtrip_C1 [of example_Marshal "NewNumber 42"
      "[42, 0, 0, 0, 0, 0, 0, 0, 0, 0, 0, 0, 0, 0, 0, 0]" identity_transformer
      "[42, 0, 0, 0, 0, 0, 0, 0, 0, 0, 0, 0, 0, 0, 0, 0]" "''user:1''" steady_clock example_Unmarshal
      "\<lparr>dyntype = types_List, ToBSON = Inr [1, 2, 3]\<rparr>" 0
      "(example_segment 1700000000000000000 0)\<lparr>Type := List, ValueSize := 3, SegValue := [1, 2, 3]\<rparr>"
      Inr Inr Inr Inr Inr example_Unmarshal]
    roundtrip_C1 [of example_Marshal "NewNumber 42"
      "[42, 0, 0, 0, 0, 0, 0, 0, 0, 0, 0, 0, 0, 0, 0, 0]" identity_transformer
      "[42, 0, 0, 0, 0, 0, 0, 0, 0, 0, 0, 0, 0, 0, 0, 0]" "''user:1''" steady_clock example_Unmarshal
      "\<lparr>dyntype = types_Text, ToBSON = Inr [1, 2, 3]\<rparr>" 0
      "(example_segment 1700000000000000000 0)\<lparr>Type := Text, ValueSize := 3, SegValue := [1, 2, 3]\<rparr>"
      Inr Inr Inr Inr Inr example_Unmarshal]
    roundtrip_C1 [of example_Marshal "NewNumber 42"
      "[42, 0, 0, 0, 0, 0, 0, 0, 0, 0, 0, 0, 0, 0, 0, 0]" identity_transformer
      "[42, 0, 0, 0, 0, 0, 0, 0, 0, 0, 0, 0, 0, 0, 0, 0]" "''user:1''" steady_clock example_Unmarshal
      "\<lparr>dyntype = types_Table, ToBSON = Inr [1, 2, 3]\<rparr>" 0
      "(example_segment 1700000000000000000 0)\<lparr>Type := Table, ValueSize := 3, SegValue := [1, 2, 3]\<rparr>"
      Inr Inr Inr Inr Inr example_Unmarshal]
    example_segment_built [of 0 steady_clock]
  by (simp add: steady_clock_def example_segment_def example_Marshal_def example_Unmarshal_def
      identity_transformer_def NewNumber_def le64_def from_le_def Get_def toKind_def
      Number_value_def NewSegment_def time_Now_def bytes_of_def)

text \<open>
  The claim as stated fails. With the transformer that reverses the bytes, and whose
  \<open>Decode\<close> undoes its \<open>Encode\<close>, the segment built from the Number 42 holds the reversed
  encoding, \<open>ToNumber\<close> decodes it as it is, and the Number it returns has the value 0,
  although the decoder inverts the encoder on 42. And for a key of \<open>2 ^ 32\<close> bytes the
  segment has a \<open>KeySize\<close> of 0.
\<close>

theorem roundtrip_C1_counterexample:
  "example_Marshal (NewNumber 42) = Inr [42, 0, 0, 0, 0, 0, 0, 0, 0, 0, 0, 0, 0, 0, 0, 0]
   \<and> example_Unmarshal [42, 0, 0, 0, 0, 0, 0, 0, 0, 0, 0, 0, 0, 0, 0, 0] = Inr (NewNumber 42)
   \<and> Encode reversing_transformer [42, 0, 0, 0, 0, 0, 0, 0, 0, 0, 0, 0, 0, 0, 0, 0]
       = Inr [0, 0, 0, 0, 0, 0, 0, 0, 0, 0, 0, 0, 0, 0, 0, 42]
   \<and> Decode reversing_transformer [0, 0, 0, 0, 0, 0, 0, 0, 0, 0, 0, 0, 0, 0, 0, 42]
       = Inr [42, 0, 0, 0, 0, 0, 0, 0, 0, 0, 0, 0, 0, 0, 0, 0]
   \<and> fst (NewSegment reversing_transformer ''user:1''
             (Number_value example_Marshal (NewNumber 42)) 0 steady_clock)
       = Inr ((example_segment 1700000000000000000 0)
               \<lparr>SegValue := [0, 0, 0, 0, 0, 0, 0, 0, 0, 0, 0, 0, 0, 0, 0, 42]\<rparr>)
   \<and> ToNumber example_Unmarshal
         ((example_segment 1700000000000000000 0)
            \<lparr>SegValue := [0, 0, 0, 0, 0, 0, 0, 0, 0, 0, 0, 0, 0, 0, 0, 42]\<rparr>)
       = Inr \<lparr>Value = 0, TTL = 3026418949592973312\<rparr>
   \<and> map_sum id Get
         (ToNumber example_Unmarshal
            ((example_segment 1700000000000000000 0)
               \<lparr>SegValue := [0, 0, 0, 0, 0, 0, 0, 0, 0, 0, 0, 0, 0, 0, 0, 42]\<rparr>))
       = Inr 0
   \<and> map_sum id Get
         (ToNumber example_Unmarshal
            ((example_segment 1700000000000000000 0)
               \<lparr>SegValue := [0, 0, 0, 0, 0, 0, 0, 0, 0, 0, 0, 0, 0, 0, 0, 42]\<rparr>))
       \<noteq> Inr 42
   \<and> map_sum id KeySize
         (fst (NewSegment identity_transformer (replicate 4294967296 CHR ''k'')
                 (Number_value example_Marshal (NewNumber 42)) 0 steady_clock))
       = Inr 0"
  by (simp add: steady_clock_def example_segment_def example_Marshal_def example_Unmarshal_def
      identity_transformer_def reversing_transformer_def NewNumber_def le64_def from_le_def
      Get_def toKind_def Number_value_def Number_ToBSON_def NewSegment_def time_Now_def
      bytes_of_def ToNumber_def)

end
